theory Spec2Isabelle
  imports Main
begin

section \<open>JavaScript values read from the document store\<close>

text \<open>
  Numbers of the program are JavaScript numbers; the model keeps the integers and
  \<open>NaN\<close>, which the coercions of the source produce for a missing or unparsable
  value. A field the code reads without checking its type (the stock quantity of a
  product, the quantity of an order line) is a \<open>jsval\<close>. The conversion of a string
  to a number is the language's own (\<open>StringToNumber\<close>); it is a parameter of the
  model (a field of \<open>env\<close> below), so nothing proved here depends on how a string is
  parsed.
\<close>

datatype jsnum = NaN | Num int

datatype jsval = JUndefined | JNull | JBool bool | JNumber jsnum | JString string

text \<open>Truthiness, as \<open>||\<close> and \<open>if\<close> apply it.\<close>

fun ToBoolean :: "jsval \<Rightarrow> bool" where
  "ToBoolean JUndefined = False"
| "ToBoolean JNull = False"
| "ToBoolean (JBool b) = b"
| "ToBoolean (JNumber NaN) = False"
| "ToBoolean (JNumber (Num n)) = (n \<noteq> 0)"
| "ToBoolean (JString s) = (s \<noteq> [])"

text \<open>\<open>Number(v)\<close>.\<close>

fun Number :: "(string \<Rightarrow> jsnum) \<Rightarrow> jsval \<Rightarrow> jsnum" where
  "Number parse JUndefined = NaN"
| "Number parse JNull = Num 0"
| "Number parse (JBool b) = Num (if b then 1 else 0)"
| "Number parse (JNumber n) = n"
| "Number parse (JString s) = parse s"

text \<open>\<open>n || 0\<close> for a number \<open>n\<close>: \<open>NaN\<close> and \<open>0\<close> are falsy.\<close>

fun orZero :: "jsnum \<Rightarrow> int" where
  "orZero NaN = 0"
| "orZero (Num n) = n"

text \<open>\<open>n > 0\<close>: every comparison with \<open>NaN\<close> is false.\<close>

fun gtZero :: "jsnum \<Rightarrow> bool" where
  "gtZero NaN = False"
| "gtZero (Num n) = (0 < n)"

text \<open>
  \<open>a < b\<close> and \<open>a - b\<close> for a number \<open>a\<close> and the number \<open>b\<close> converts to: a
  comparison with \<open>NaN\<close> is false, a difference with \<open>NaN\<close> is \<open>NaN\<close>.
\<close>

fun jsLess :: "int \<Rightarrow> jsnum \<Rightarrow> bool" where
  "jsLess a NaN = False"
| "jsLess a (Num b) = (a < b)"

fun jsMinus :: "int \<Rightarrow> jsnum \<Rightarrow> jsnum" where
  "jsMinus a NaN = NaN"
| "jsMinus a (Num b) = Num (a - b)"

text \<open>
  \<open>s.split(c)\<close> for a one-character separator: the result is never empty, and its
  first element is the text before the first separator.
\<close>

fun split :: "char \<Rightarrow> string \<Rightarrow> string list" where
  "split sep [] = [[]]"
| "split sep (c # cs) =
     (if c = sep then [] # split sep cs
      else (case split sep cs of [] \<Rightarrow> [[c]] | p # ps \<Rightarrow> (c # p) # ps))"

section \<open>Documents, collections and the world\<close>

text \<open>
  Timestamps are written by the source as ISO strings of the current time and compared
  through \<open>getTime()\<close>; the model keeps the epoch value. A collection lists its
  documents with their ids, in the order a query returns them. The store is taken to be
  reachable: a read or a write of an existing document succeeds, and the only failure
  of the store in the model is the update of a document that does not exist.
\<close>

type_synonym timestamp = int

type_synonym 'd collection = "(string \<times> 'd) list"

definition getDoc :: "'d collection \<Rightarrow> string \<Rightarrow> 'd option" where
  "getDoc c i = map_of c i"

text \<open>\<open>updateDoc\<close> merges fields into an existing document and fails on a missing one.\<close>

definition updateDoc :: "'d collection \<Rightarrow> string \<Rightarrow> ('d \<Rightarrow> 'd) \<Rightarrow> 'd collection option" where
  "updateDoc c i f =
     (case map_of c i of
        None \<Rightarrow> None
      | Some _ \<Rightarrow> Some (map (\<lambda>(k, d). if k = i then (k, f d) else (k, d)) c))"

text \<open>
  A product document. Only \<open>stockQuantity\<close> is read dynamically by the code under
  study; the catalogue fields that play no part in filtering (names, prices, tags,
  images, reviews) are left out.
\<close>

record productDoc =
  pd_categoryId :: string
  pd_FournisseurId :: string
  pd_feature :: bool
  pd_stockQuantity :: jsval
  pd_updatedAt :: timestamp

record Product =
  p_id :: string
  p_categoryId :: string
  p_FournisseurId :: string
  p_stockQuantity :: jsnum
  p_feature :: bool
  p_fournisseurName :: "string option"

record orderItem =
  oi_productId :: string
  oi_productName :: string
  oi_quantity :: jsval

record stockItem =
  productId :: string
  quantity :: jsval

record stockResult =
  success :: bool
  errors :: "string list"

text \<open>
  A sub-order document. The fields the code reads and may find missing are optional
  (\<open>None\<close> is \<open>undefined\<close>).
\<close>

record subOrder =
  so_masterOrderId :: string
  so_fournisseurId :: string
  so_fournisseurName :: "string option"
  so_userName :: "string option"
  so_userEmail :: "string option"
  so_paymentMethod :: "string option"
  so_items :: "orderItem list"
  so_status :: string
  so_paymentStatus :: string
  so_createdAt :: timestamp
  so_updatedAt :: timestamp
  so_confirmedAt :: "timestamp option"
  so_deliveredAt :: "timestamp option"

record masterOrder =
  mo_userEmail :: string
  mo_status :: string
  mo_paymentStatus :: string
  mo_updatedAt :: timestamp
  mo_confirmedAt :: "timestamp option"
  mo_deliveredAt :: "timestamp option"

text \<open>An order as the notification code sees it: the document id with the sub-order's data.\<close>

type_synonym Order = "string \<times> subOrder"

record fournisseurDoc =
  fd_ownerId :: string
  fd_name :: string

record userDoc =
  ud_uid :: string
  ud_email :: string
  ud_fullName :: string

record supplierInfo =
  si_email :: string
  si_name :: string
  si_businessName :: string

datatype eventType = new_order | status_update | manual_trigger

datatype notificationStatus = ns_success | ns_failed | ns_error

datatype changeType = added | modified | removed

record notificationLog =
  nl_orderId :: string
  nl_fournisseurId :: string
  nl_fournisseurName :: string
  nl_customerName :: string
  nl_customerEmail :: string
  nl_paymentMethod :: string
  nl_orderStatus :: string
  nl_paymentStatus :: string
  nl_eventType :: eventType
  nl_notificationStatus :: notificationStatus
  nl_timestamp :: timestamp

record processedOrderState =
  ps_orderId :: string
  ps_status :: string
  ps_paymentStatus :: string
  ps_fournisseurId :: string
  ps_processedAt :: timestamp

text \<open>
  The texts of the e-mail subjects and notification titles hold characters outside
  ASCII and play no part in control flow. A subject is represented by the way it was
  selected: the entry of the template table for a status key, a property the table
  object inherits, or the fallback built from the order id and the raw status
  (the right operand of \<open>||\<close> in \<open>generateEmailSubject\<close>).
\<close>

datatype subject =
    TemplateSubject string
  | InheritedProperty string
  | DefaultSubject string string

datatype inAppTitle =
    TitleNewOrder
  | TitleOrderUpdated
  | TitleForStatus string

record inAppNotification =
  ia_title :: inAppTitle
  ia_orderId :: string
  ia_fournisseurId :: string
  ia_createdAt :: timestamp

record supplierNotificationLog =
  snl_orderId :: string
  snl_fournisseurId :: string
  snl_supplierEmail :: string
  snl_notificationStatus :: notificationStatus
  snl_timestamp :: timestamp

text \<open>
  Effects, in the order the program performs them: writes to the store, calls to the
  collaborating services and requests to the mail relay.
\<close>

datatype effect =
    ProductWrite string
  | SubOrderWrite string
  | MasterOrderWrite string
  | StockDecrementCall "stockItem list"
  | OrderNotificationCall string string
  | PaymentNotificationCall string string
  | CustomerEmailPost string
  | LedgerWrite string
  | DispatchCall string
  | SupplierEmailPost string subject
  | NotificationLogWrite string
  | InAppNotificationWrite string
  | SupplierNotificationLogWrite string

record world =
  products :: "productDoc collection"
  subOrders :: "subOrder collection"
  masterOrders :: "masterOrder collection"
  Fournisseurs :: "fournisseurDoc collection"
  users :: "userDoc list"
  notificationLogs :: "notificationLog list"
  processedOrderStates :: "processedOrderState list"
  notifications :: "inAppNotification list"
  supplierNotificationLogs :: "supplierNotificationLog list"
  trace :: "effect list"

text \<open>
  What a call takes from outside the store: the string parser of the language, the
  clock, the configured relay URL, the answer of \<open>fournisseurService.getFournisseurs\<close>
  (\<open>None\<close> when it throws) and whether the relay accepts a supplier e-mail.
\<close>

record env =
  StringToNumber :: "string \<Rightarrow> jsnum"
  now :: timestamp
  VITE_EMAIL_BACKEND_URL :: string
  getFournisseurs :: "(string \<times> string) list option"
  relay :: "string \<Rightarrow> subject \<Rightarrow> bool"

text \<open>What an asynchronous operation of type \<open>Promise<void>\<close> ends with.\<close>

datatype outcome = Done | Thrown string

section \<open>The storefront's product service\<close>

definition toProduct :: "env \<Rightarrow> string \<times> productDoc \<Rightarrow> Product" where
  "toProduct e = (\<lambda>(i, data).
     let stockQuantity =
           Number (StringToNumber e)
             (if ToBoolean (pd_stockQuantity data) then pd_stockQuantity data
              else JNumber (Num 0))
     in \<lparr> p_id = i,
          p_categoryId = pd_categoryId data,
          p_FournisseurId = pd_FournisseurId data,
          p_stockQuantity = stockQuantity,
          p_feature = pd_feature data,
          p_fournisseurName = None \<rparr>)"

definition enrichProductsWithFournisseurNames :: "env \<Rightarrow> Product list \<Rightarrow> Product list" where
  "enrichProductsWithFournisseurNames e ps =
     (case getFournisseurs e of
        Some fournisseurs \<Rightarrow>
          map (\<lambda>product. product\<lparr> p_fournisseurName :=
                 Some (case map_of (rev fournisseurs) (p_FournisseurId product) of
                         Some n \<Rightarrow> if n \<noteq> [] then n else ''Fournisseur inconnu''
                       | None \<Rightarrow> ''Fournisseur inconnu'') \<rparr>) ps
      | None \<Rightarrow>
          map (\<lambda>product. product\<lparr> p_fournisseurName := Some ''Fournisseur inconnu'' \<rparr>) ps)"

definition inStock :: "env \<Rightarrow> productDoc collection \<Rightarrow> Product list" where
  "inStock e docs = filter (\<lambda>p. gtZero (p_stockQuantity p)) (map (toProduct e) docs)"

definition getProducts :: "env \<Rightarrow> world \<Rightarrow> Product list" where
  "getProducts e w = enrichProductsWithFournisseurNames e (inStock e (products w))"

definition getProductsByCategory :: "env \<Rightarrow> world \<Rightarrow> string \<Rightarrow> Product list" where
  "getProductsByCategory e w categoryId =
     enrichProductsWithFournisseurNames e
       (inStock e (filter (\<lambda>(i, d). pd_categoryId d = categoryId) (products w)))"

definition getFeaturedProducts :: "env \<Rightarrow> world \<Rightarrow> Product list" where
  "getFeaturedProducts e w =
     enrichProductsWithFournisseurNames e
       (inStock e (filter (\<lambda>(i, d). pd_feature d) (products w)))"

section \<open>The stock ledger\<close>

text \<open>The current stock as both decrement functions read it: \<open>Number(stockQuantity) || 0\<close>.\<close>

definition currentStock :: "env \<Rightarrow> productDoc \<Rightarrow> int" where
  "currentStock e productData = orZero (Number (StringToNumber e) (pd_stockQuantity productData))"

definition stockWrite :: "env \<Rightarrow> jsnum \<Rightarrow> productDoc \<Rightarrow> productDoc" where
  "stockWrite e newStock d = d\<lparr> pd_stockQuantity := JNumber newStock, pd_updatedAt := now e \<rparr>"

definition decrementProductStock :: "env \<Rightarrow> world \<Rightarrow> string \<Rightarrow> jsval \<Rightarrow> bool \<times> world" where
  "decrementProductStock e w pid qty =
     (case getDoc (products w) pid of
        None \<Rightarrow> (False, w)
      | Some productData \<Rightarrow>
          if jsLess (currentStock e productData) (Number (StringToNumber e) qty) then (False, w)
          else
            (case updateDoc (products w) pid
                    (stockWrite e (jsMinus (currentStock e productData)
                                     (Number (StringToNumber e) qty))) of
               None \<Rightarrow> (False, w)
             | Some ps \<Rightarrow> (True, w\<lparr> products := ps, trace := trace w @ [ProductWrite pid] \<rparr>)))"

text \<open>
  One line of the batch: the source pushes a message to \<open>errors\<close> and yields
  \<open>null\<close>, or yields the reference with the new stock. \<open>Inl\<close> carries the message.
  The lines are read concurrently and the source records the messages as the reads
  complete; the model lists them in the order of the lines.
\<close>

definition checkItem :: "env \<Rightarrow> world \<Rightarrow> stockItem \<Rightarrow> string + (string \<times> jsnum)" where
  "checkItem e w item =
     (case getDoc (products w) (productId item) of
        None \<Rightarrow> Inl (''Product '' @ productId item @ '' not found'')
      | Some productData \<Rightarrow>
          if jsLess (currentStock e productData) (Number (StringToNumber e) (quantity item))
          then Inl (''Insufficient stock for '' @ productId item)
          else Inr (productId item,
                    jsMinus (currentStock e productData)
                      (Number (StringToNumber e) (quantity item))))"

fun errorsOf :: "(string + (string \<times> jsnum)) list \<Rightarrow> string list" where
  "errorsOf [] = []"
| "errorsOf (Inl m # cs) = m # errorsOf cs"
| "errorsOf (Inr _ # cs) = errorsOf cs"

fun writesOf :: "(string + (string \<times> jsnum)) list \<Rightarrow> (string \<times> jsnum) list" where
  "writesOf [] = []"
| "writesOf (Inl _ # cs) = writesOf cs"
| "writesOf (Inr u # cs) = u # writesOf cs"

text \<open>The batch commits all its updates or none.\<close>

fun commit :: "env \<Rightarrow> productDoc collection \<Rightarrow> (string \<times> jsnum) list \<Rightarrow> productDoc collection option" where
  "commit e ps [] = Some ps"
| "commit e ps ((ref, newStock) # us) =
     (case updateDoc ps ref (stockWrite e newStock) of
        None \<Rightarrow> None
      | Some ps' \<Rightarrow> commit e ps' us)"

definition decrementMultipleProductsStock :: "env \<Rightarrow> world \<Rightarrow> stockItem list \<Rightarrow> stockResult \<times> world" where
  "decrementMultipleProductsStock e w items =
     (let productChecks = map (checkItem e w) items;
          errs = errorsOf productChecks
      in if length errs > 0 then (\<lparr> success = False, errors = errs \<rparr>, w)
         else
           (case commit e (products w) (writesOf productChecks) of
              None \<Rightarrow> (\<lparr> success = False, errors = [''batch commit failed''] \<rparr>, w)
            | Some ps \<Rightarrow>
                (\<lparr> success = True, errors = [] \<rparr>,
                 w\<lparr> products := ps,
                    trace := trace w @ map (\<lambda>u. ProductWrite (fst u)) (writesOf productChecks) \<rparr>)))"

section \<open>Sub-orders and the master-order synchroniser\<close>

definition getSubOrdersByMasterOrderId :: "world \<Rightarrow> string \<Rightarrow> subOrder collection" where
  "getSubOrdersByMasterOrderId w masterOrderId =
     sort_key (\<lambda>(i, s). so_createdAt s)
       (filter (\<lambda>(i, s). so_masterOrderId s = masterOrderId) (subOrders w))"

text \<open>The fields \<open>updateData\<close> carries, merged into the master order.\<close>

definition masterUpdate :: "env \<Rightarrow> bool \<Rightarrow> string \<Rightarrow> bool \<Rightarrow> string \<Rightarrow> masterOrder \<Rightarrow> masterOrder" where
  "masterUpdate e allStatusesSame status0 allPaymentStatusesSame paymentStatus0 m =
     (let m1 = m\<lparr> mo_updatedAt := now e \<rparr>;
          m2 = (if allStatusesSame then
                  (let m' = m1\<lparr> mo_status := status0 \<rparr>
                   in if status0 = ''confirmed'' then m'\<lparr> mo_confirmedAt := Some (now e) \<rparr>
                      else if status0 = ''delivered'' then m'\<lparr> mo_deliveredAt := Some (now e) \<rparr>
                      else m')
                else m1)
      in if allPaymentStatusesSame then m2\<lparr> mo_paymentStatus := paymentStatus0 \<rparr> else m2)"

text \<open>The customer e-mail after an update: one request to the relay when an address and a relay URL exist.\<close>

definition notifyCustomer :: "env \<Rightarrow> world \<Rightarrow> string \<Rightarrow> world" where
  "notifyCustomer e w masterOrderId =
     (case getDoc (masterOrders w) masterOrderId of
        None \<Rightarrow> w
      | Some masterData \<Rightarrow>
          if mo_userEmail masterData \<noteq> [] then
            (if VITE_EMAIL_BACKEND_URL e = [] then w
             else w\<lparr> trace := trace w @ [CustomerEmailPost masterOrderId] \<rparr>)
          else w)"

definition syncMasterOrderStatus :: "env \<Rightarrow> world \<Rightarrow> string \<Rightarrow> outcome \<times> world" where
  "syncMasterOrderStatus e w masterOrderId =
     (let subs = getSubOrdersByMasterOrderId w masterOrderId
      in if length subs = 0 then (Done, w)
         else
           (let statuses = map (\<lambda>order. so_status (snd order)) subs;
                paymentStatuses = map (\<lambda>order. so_paymentStatus (snd order)) subs;
                allStatusesSame = list_all (\<lambda>status. status = hd statuses) statuses;
                allPaymentStatusesSame =
                  list_all (\<lambda>status. status = hd paymentStatuses) paymentStatuses
            in if allStatusesSame \<or> allPaymentStatusesSame then
                 (case updateDoc (masterOrders w) masterOrderId
                         (masterUpdate e allStatusesSame (hd statuses)
                            allPaymentStatusesSame (hd paymentStatuses)) of
                    None \<Rightarrow> (Thrown ''Failed to sync master order status'', w)
                  | Some ms \<Rightarrow>
                      (Done,
                       notifyCustomer e
                         (w\<lparr> masterOrders := ms,
                             trace := trace w @ [MasterOrderWrite masterOrderId] \<rparr>)
                         masterOrderId))
               else (Done, w)))"

definition getOrderNotificationSubType :: "string \<Rightarrow> string" where
  "getOrderNotificationSubType status =
     (case map_of [(''confirmed'', ''order_confirmed''),
                   (''preparing'', ''order_preparing''),
                   (''out_for_delivery'', ''order_shipped''),
                   (''delivered'', ''order_delivered''),
                   (''cancelled'', ''order_cancelled'')] status of
        Some t \<Rightarrow> t
      | None \<Rightarrow> ''order_status_changed'')"

definition getPaymentNotificationSubType :: "string \<Rightarrow> string" where
  "getPaymentNotificationSubType paymentStatus =
     (case map_of [(''paid'', ''payment_received''),
                   (''failed'', ''payment_failed''),
                   (''pending'', ''payment_pending''),
                   (''refunded'', ''refund_processed'')] paymentStatus of
        Some t \<Rightarrow> t
      | None \<Rightarrow> ''payment_status_changed'')"

text \<open>An optional string argument is truthy when it is given and not empty.\<close>

fun given :: "string option \<Rightarrow> bool" where
  "given None = False"
| "given (Some s) = (s \<noteq> [])"

definition subOrderUpdate :: "env \<Rightarrow> string \<Rightarrow> string option \<Rightarrow> subOrder \<Rightarrow> subOrder" where
  "subOrderUpdate e status paymentStatus s =
     (let s1 = s\<lparr> so_status := status, so_updatedAt := now e \<rparr>;
          s2 = (if given paymentStatus then s1\<lparr> so_paymentStatus := the paymentStatus \<rparr> else s1)
      in if status = ''confirmed'' then s2\<lparr> so_confirmedAt := Some (now e) \<rparr>
         else if status = ''delivered'' then s2\<lparr> so_deliveredAt := Some (now e) \<rparr>
         else s2)"

definition stockItemsOf :: "subOrder \<Rightarrow> stockItem list" where
  "stockItemsOf s =
     map (\<lambda>item. \<lparr> productId = oi_productId item, quantity = oi_quantity item \<rparr>) (so_items s)"

text \<open>
  The calls to \<open>EnhancedNotificationService\<close> are recorded in the trace; an exception
  of theirs is caught at the call and changes nothing else.
\<close>

definition statusNotifications :: "world \<Rightarrow> subOrder \<Rightarrow> string \<Rightarrow> string option \<Rightarrow> world" where
  "statusNotifications w currentSubOrder status paymentStatus =
     (let w1 = (if status \<noteq> so_status currentSubOrder
                then w\<lparr> trace := trace w @
                       [OrderNotificationCall (so_fournisseurId currentSubOrder)
                          (getOrderNotificationSubType status)] \<rparr>
                else w)
      in if given paymentStatus \<and> the paymentStatus \<noteq> so_paymentStatus currentSubOrder
         then w1\<lparr> trace := trace w1 @
                [PaymentNotificationCall (so_fournisseurId currentSubOrder)
                   (getPaymentNotificationSubType (the paymentStatus))] \<rparr>
         else w1)"

definition updateSubOrderStatus :: "env \<Rightarrow> world \<Rightarrow> string \<Rightarrow> string \<Rightarrow> string option \<Rightarrow> outcome \<times> world" where
  "updateSubOrderStatus e w subOrderId status paymentStatus =
     (case getDoc (subOrders w) subOrderId of
        None \<Rightarrow> (Thrown ''Failed to update order status'', w)
      | Some currentSubOrder \<Rightarrow>
          (let previousStatus = so_status currentSubOrder;
               shouldDecrementStock =
                 (status = ''out_for_delivery'' \<and> previousStatus \<noteq> ''out_for_delivery'');
               w1 = (if shouldDecrementStock then
                       snd (decrementMultipleProductsStock e
                              (w\<lparr> trace := trace w @ [StockDecrementCall (stockItemsOf currentSubOrder)] \<rparr>)
                              (stockItemsOf currentSubOrder))
                     else w)
           in case updateDoc (subOrders w1) subOrderId (subOrderUpdate e status paymentStatus) of
                None \<Rightarrow> (Thrown ''Failed to update order status'', w1)
              | Some sos \<Rightarrow>
                  (let w2 = w1\<lparr> subOrders := sos, trace := trace w1 @ [SubOrderWrite subOrderId] \<rparr>;
                       w3 = statusNotifications w2 currentSubOrder status paymentStatus;
                       r = syncMasterOrderStatus e w3 (so_masterOrderId currentSubOrder)
                   in case fst r of
                        Done \<Rightarrow> (Done, snd r)
                      | Thrown _ \<Rightarrow> (Thrown ''Failed to update order status'', snd r))))"

section \<open>Notification dispatch\<close>

text \<open>
  Reading a key of an object literal finds the literal's own entry, or a property every
  object inherits (a truthy value that is no template), or nothing.
\<close>

datatype 'a lookup = Own 'a | Inherited | Absent

definition statusKeys :: "string list" where
  "statusKeys = [''pending'', ''confirmed'', ''preparing'', ''out_for_delivery'',
                 ''delivered'', ''cancelled'']"

definition objectPrototypeKeys :: "string list" where
  "objectPrototypeKeys = [''constructor'', ''hasOwnProperty'', ''isPrototypeOf'',
     ''propertyIsEnumerable'', ''toLocaleString'', ''toString'', ''valueOf'', ''__proto__'',
     ''__defineGetter__'', ''__defineSetter__'', ''__lookupGetter__'', ''__lookupSetter__'']"

definition templateFor :: "string \<Rightarrow> string lookup" where
  "templateFor status =
     (if status \<in> set statusKeys then Own status
      else if status \<in> set objectPrototypeKeys then Inherited
      else Absent)"

definition getSupplierInfo :: "world \<Rightarrow> string \<Rightarrow> supplierInfo option" where
  "getSupplierInfo w fournisseurId =
     (case getDoc (Fournisseurs w) fournisseurId of
        None \<Rightarrow> None
      | Some supplierData \<Rightarrow>
          (case filter (\<lambda>u. ud_uid u = fd_ownerId supplierData) (users w) of
             [] \<Rightarrow> None
           | userData # _ \<Rightarrow>
               Some \<lparr> si_email = ud_email userData,
                      si_name = (if ud_fullName userData \<noteq> [] then ud_fullName userData
                                 else ''Supplier''),
                      si_businessName = (if fd_name supplierData \<noteq> [] then fd_name supplierData
                                         else ''Business'') \<rparr>))"

text \<open>
  \<open>SupplierEmailService.sendOrderNotification\<close>, the dispatcher the change-feed
  listener calls: the template is looked up first and its absence ends the call. With
  an inherited property in place of a template the call goes on to resolve the supplier,
  and rendering the subject then raises a type error, which the function catches. The
  rendering of a template's texts is taken to succeed.
\<close>

definition SupplierEmailService_sendOrderNotification :: "env \<Rightarrow> world \<Rightarrow> Order \<Rightarrow> bool \<times> world" where
  "SupplierEmailService_sendOrderNotification e w order =
     (case templateFor (so_status (snd order)) of
        Absent \<Rightarrow> (False, w)
      | template \<Rightarrow>
          (case getSupplierInfo w (so_fournisseurId (snd order)) of
             None \<Rightarrow> (False, w)
           | Some info \<Rightarrow>
               (case template of
                  Own k \<Rightarrow>
                    (relay e (si_email info) (TemplateSubject k),
                     w\<lparr> trace := trace w @ [SupplierEmailPost (si_email info) (TemplateSubject k)] \<rparr>)
                | _ \<Rightarrow> (False, w))))"

text \<open>
  The store refuses a document one of whose fields is \<open>undefined\<close> or a function, and
  the functions that add a notification row or a log entry catch the refusal: nothing
  is written then. A field is a function when a status that names an inherited property
  is looked up in a table of texts.
\<close>

definition inAppAccepted :: "Order \<Rightarrow> bool" where
  "inAppAccepted order =
     (so_userName (snd order) \<noteq> None \<and> so_userEmail (snd order) \<noteq> None)"

definition logAccepted :: "Order \<Rightarrow> bool" where
  "logAccepted order =
     (so_fournisseurName (snd order) \<noteq> None \<and> so_userName (snd order) \<noteq> None
      \<and> so_userEmail (snd order) \<noteq> None \<and> so_paymentMethod (snd order) \<noteq> None)"



section \<open>The change-feed listener\<close>

definition orderKeyOf :: "Order \<Rightarrow> string" where
  "orderKeyOf orderData =
     fst orderData @ ''-'' @ so_status (snd orderData) @ ''-'' @ so_paymentStatus (snd orderData)"

definition checkIfAlreadyProcessed :: "world \<Rightarrow> string \<Rightarrow> string \<Rightarrow> bool" where
  "checkIfAlreadyProcessed w orderKey fournisseurId =
     (length (filter (\<lambda>l. nl_orderId l = hd (split CHR ''-'' orderKey)
                          \<and> nl_fournisseurId l = fournisseurId
                          \<and> nl_eventType l \<in> set [new_order, status_update])
                (notificationLogs w)) > 0)"

text \<open>A key with fewer than three parts would leave a field undefined; the store refuses such a document and the function catches that.\<close>

definition markAsProcessed :: "env \<Rightarrow> world \<Rightarrow> string \<Rightarrow> string \<Rightarrow> world" where
  "markAsProcessed e w orderKey fournisseurId =
     (case split CHR ''-'' orderKey of
        orderId # status # paymentStatus # _ \<Rightarrow>
          w\<lparr> processedOrderStates := processedOrderStates w @
                [\<lparr> ps_orderId = orderId, ps_status = status, ps_paymentStatus = paymentStatus,
                   ps_fournisseurId = fournisseurId, ps_processedAt = now e \<rparr>],
             trace := trace w @ [LedgerWrite orderKey] \<rparr>
      | _ \<Rightarrow> w)"

definition logNotificationEvent :: "env \<Rightarrow> world \<Rightarrow> Order \<Rightarrow> eventType \<Rightarrow> notificationStatus \<Rightarrow> world" where
  "logNotificationEvent e w order ev st =
     (if logAccepted order then
        w\<lparr> notificationLogs := notificationLogs w @
              [\<lparr> nl_orderId = fst order,
                 nl_fournisseurId = so_fournisseurId (snd order),
                 nl_fournisseurName = the (so_fournisseurName (snd order)),
                 nl_customerName = the (so_userName (snd order)),
                 nl_customerEmail = the (so_userEmail (snd order)),
                 nl_paymentMethod = the (so_paymentMethod (snd order)),
                 nl_orderStatus = so_status (snd order),
                 nl_paymentStatus = so_paymentStatus (snd order),
                 nl_eventType = ev,
                 nl_notificationStatus = st,
                 nl_timestamp = now e \<rparr>],
           trace := trace w @ [NotificationLogWrite (fst order)] \<rparr>
      else w)"

definition createInAppNotification :: "env \<Rightarrow> world \<Rightarrow> Order \<Rightarrow> changeType \<Rightarrow> world" where
  "createInAppNotification e w order ty =
     (if inAppAccepted order then
        w\<lparr> notifications := notifications w @
              [\<lparr> ia_title = (if ty = added then TitleNewOrder else TitleOrderUpdated),
                 ia_orderId = fst order,
                 ia_fournisseurId = so_fournisseurId (snd order),
                 ia_createdAt = now e \<rparr>],
           trace := trace w @ [InAppNotificationWrite (fst order)] \<rparr>
      else w)"

text \<open>The notification of one added or modified order: dispatch, log, in-app row.\<close>

definition notifyChange :: "env \<Rightarrow> world \<Rightarrow> Order \<Rightarrow> changeType \<Rightarrow> eventType \<Rightarrow> world" where
  "notifyChange e w orderData ty ev =
     (let r = SupplierEmailService_sendOrderNotification e
                (w\<lparr> trace := trace w @ [DispatchCall (fst orderData)] \<rparr>) orderData;
          w1 = logNotificationEvent e (snd r) orderData ev (if fst r then ns_success else ns_failed)
      in createInAppNotification e w1 orderData ty)"

text \<open>
  The body of the listener's callback for one change, run to its end. The callbacks of
  one batch are asynchronous in the source; their interleaving is not modelled. Every
  function called inside the \<open>try\<close> block catches its own exceptions, so the
  \<open>catch\<close> branch that logs \<open>error\<close> is not reached.
\<close>

definition processChange :: "env \<Rightarrow> string \<Rightarrow> world \<Rightarrow> changeType \<times> Order \<Rightarrow> world" where
  "processChange e fournisseurId w change =
     (let orderData = snd change;
          orderKey = orderKeyOf orderData
      in if checkIfAlreadyProcessed w orderKey fournisseurId then w
         else
           (let w1 = markAsProcessed e w orderKey fournisseurId
            in case fst change of
                 added \<Rightarrow> notifyChange e w1 orderData added new_order
               | modified \<Rightarrow> notifyChange e w1 orderData modified status_update
               | removed \<Rightarrow> w1))"

text \<open>The listener's memory: when it last processed a batch, per supplier.\<close>

record trigger =
  lastProcessedTimestamp :: "string \<Rightarrow> int option"

text \<open>The snapshot callback of \<open>initializeOrderMonitoring\<close>, at clock reading \<open>currentTime\<close>.\<close>

definition onSnapshot :: "env \<Rightarrow> string \<Rightarrow> int \<Rightarrow> (changeType \<times> Order) list \<Rightarrow> trigger \<times> world \<Rightarrow> trigger \<times> world" where
  "onSnapshot e fournisseurId currentTime changes tw =
     (let lastProcessed = (case lastProcessedTimestamp (fst tw) fournisseurId of
                             None \<Rightarrow> 0
                           | Some t \<Rightarrow> t)
      in if currentTime - lastProcessed < 2000 then tw
         else
           ((fst tw)\<lparr> lastProcessedTimestamp :=
                       (lastProcessedTimestamp (fst tw))(fournisseurId \<mapsto> currentTime) \<rparr>,
            foldl (processChange e fournisseurId) (snd tw) changes))"

section \<open>Vocabulary of the statements\<close>

text \<open>
  A line of a batch fails when its product is missing or holds less than the line asks
  for; \<open>lineError\<close> is the message the source records for such a line.
\<close>

definition failingLine :: "env \<Rightarrow> world \<Rightarrow> stockItem \<Rightarrow> bool" where
  "failingLine e w item =
     (case getDoc (products w) (productId item) of
        None \<Rightarrow> True
      | Some productData \<Rightarrow>
          jsLess (currentStock e productData) (Number (StringToNumber e) (quantity item)))"

definition lineError :: "world \<Rightarrow> stockItem \<Rightarrow> string" where
  "lineError w item =
     (case getDoc (products w) (productId item) of
        None \<Rightarrow> ''Product '' @ productId item @ '' not found''
      | Some _ \<Rightarrow> ''Insufficient stock for '' @ productId item)"

text \<open>
  Counting in the trace: the invocations of the batch decrement and the writes to
  products. \<open>subOrdersOf\<close> are the sub-orders of a master order as the store holds
  them; \<open>masterStatus\<close> is the status field of a master order, if it exists.
\<close>

fun isStockDecrementCall :: "effect \<Rightarrow> bool" where
  "isStockDecrementCall (StockDecrementCall _) = True"
| "isStockDecrementCall _ = False"

fun isProductWrite :: "effect \<Rightarrow> bool" where
  "isProductWrite (ProductWrite _) = True"
| "isProductWrite _ = False"

definition decrementCalls :: "world \<Rightarrow> nat" where
  "decrementCalls w = length (filter isStockDecrementCall (trace w))"

definition productWrites :: "world \<Rightarrow> effect list" where
  "productWrites w = filter isProductWrite (trace w)"

definition subOrdersOf :: "world \<Rightarrow> string \<Rightarrow> subOrder list" where
  "subOrdersOf w masterOrderId =
     map snd (filter (\<lambda>(i, s). so_masterOrderId s = masterOrderId) (subOrders w))"

definition masterStatus :: "world \<Rightarrow> string \<Rightarrow> string option" where
  "masterStatus w i = map_option mo_status (getDoc (masterOrders w) i)"




section \<open>Example data\<close>

definition env0 :: env where
  "env0 = \<lparr> StringToNumber = (\<lambda>s. NaN), now = 1000,
            VITE_EMAIL_BACKEND_URL = ''http://localhost:4001'',
            getFournisseurs = Some [], relay = (\<lambda>to subj. True) \<rparr>"

definition emptyWorld :: world where
  "emptyWorld = \<lparr> products = [], subOrders = [], masterOrders = [], Fournisseurs = [],
                  users = [], notificationLogs = [], processedOrderStates = [],
                  notifications = [], supplierNotificationLogs = [], trace = [] \<rparr>"

definition productWith :: "jsval \<Rightarrow> productDoc" where
  "productWith v = \<lparr> pd_categoryId = ''fruits'', pd_FournisseurId = ''f1'', pd_feature = True,
                     pd_stockQuantity = v, pd_updatedAt = 0 \<rparr>"

definition stockWorld :: world where
  "stockWorld = emptyWorld\<lparr> products :=
      [(''A'', productWith (JNumber (Num 10))), (''B'', productWith (JNumber (Num 3)))] \<rparr>"

definition stockLines :: "stockItem list" where
  "stockLines = [\<lparr> productId = ''A'', quantity = JNumber (Num 5) \<rparr>,
                 \<lparr> productId = ''B'', quantity = JNumber (Num 20) \<rparr>]"

definition catalogueWorld :: world where
  "catalogueWorld = emptyWorld\<lparr> products :=
      [(''apple'', productWith (JNumber (Num 4))),
       (''pear'', productWith JUndefined),
       (''plum'', productWith (JString ''n/a'')),
       (''fig'', productWith (JNumber (Num 0)))] \<rparr>"

definition applesLine :: "orderItem list" where
  "applesLine = [\<lparr> oi_productId = ''A'', oi_productName = ''Apples'',
                   oi_quantity = JNumber (Num 5) \<rparr>]"

definition beansLine :: "orderItem list" where
  "beansLine = [\<lparr> oi_productId = ''B'', oi_productName = ''Beans'',
                  oi_quantity = JNumber (Num 20) \<rparr>]"

definition subOrderWith :: "string \<Rightarrow> string \<Rightarrow> orderItem list \<Rightarrow> subOrder" where
  "subOrderWith st pay items =
     \<lparr> so_masterOrderId = ''M1'', so_fournisseurId = ''f1'',
       so_fournisseurName = Some ''Ferme'', so_userName = Some ''Client'',
       so_userEmail = Some ''client@example.tn'', so_paymentMethod = Some ''cash'',
       so_items = items, so_status = st, so_paymentStatus = pay, so_createdAt = 10,
       so_updatedAt = 10, so_confirmedAt = None, so_deliveredAt = None \<rparr>"

definition masterPending :: masterOrder where
  "masterPending = \<lparr> mo_userEmail = ''client@example.tn'', mo_status = ''pending'',
                     mo_paymentStatus = ''pending'', mo_updatedAt = 10,
                     mo_confirmedAt = None, mo_deliveredAt = None \<rparr>"

definition ordersWorld :: world where
  "ordersWorld = stockWorld\<lparr>
      subOrders := [(''S1'', subOrderWith ''confirmed'' ''paid'' applesLine),
                    (''S2'', subOrderWith ''preparing'' ''paid'' beansLine)],
      masterOrders := [(''M1'', masterPending)] \<rparr>"

definition idleTrigger :: trigger where
  "idleTrigger = \<lparr> lastProcessedTimestamp = (\<lambda>f. None) \<rparr>"

definition notifyWorld :: world where
  "notifyWorld = ordersWorld\<lparr>
      Fournisseurs := [(''f1'', \<lparr> fd_ownerId = ''u1'', fd_name = ''Ferme du Cap'' \<rparr>)],
      users := [\<lparr> ud_uid = ''u1'', ud_email = ''ferme@example.tn'', ud_fullName = ''Amel'' \<rparr>] \<rparr>"

definition archivedOrder :: Order where
  "archivedOrder = (''abcXYZ0123456789'', subOrderWith ''archived'' ''paid'' applesLine)"

definition confirmedOrder :: Order where
  "confirmedOrder = (''abcXYZ0123456789'', subOrderWith ''confirmed'' ''paid'' applesLine)"




section \<open>Properties of the stock ledger\<close>

text \<open>The defining equations that evaluate the examples.\<close>

lemmas example_defs = ordersWorld_def stockWorld_def emptyWorld_def subOrderWith_def
  masterPending_def productWith_def env0_def applesLine_def beansLine_def

lemmas eval_defs = updateSubOrderStatus_def syncMasterOrderStatus_def
  decrementMultipleProductsStock_def checkItem_def currentStock_def stockWrite_def
  getSubOrdersByMasterOrderId_def masterUpdate_def notifyCustomer_def statusNotifications_def
  subOrderUpdate_def stockItemsOf_def getOrderNotificationSubType_def
  getPaymentNotificationSubType_def getDoc_def updateDoc_def Let_def

lemmas notify_defs = processChange_def notifyChange_def orderKeyOf_def checkIfAlreadyProcessed_def
  markAsProcessed_def logNotificationEvent_def createInAppNotification_def
  SupplierEmailService_sendOrderNotification_def templateFor_def statusKeys_def
  objectPrototypeKeys_def getSupplierInfo_def logAccepted_def inAppAccepted_def getDoc_def Let_def

lemma errorsOf_checks:
  "errorsOf (map (checkItem e w) items) = map (lineError w) (filter (failingLine e w) items)"
  by (induction items) (auto simp: checkItem_def failingLine_def lineError_def split: option.splits)

lemma errorsOf_empty_iff:
  "errorsOf (map (checkItem e w) items) = [] \<longleftrightarrow> (\<forall>item \<in> set items. \<not> failingLine e w item)"
  by (simp add: errorsOf_checks filter_empty_conv)

lemma map_of_update:
  "map_of (map (\<lambda>(k, d). if k = i then (k, f d) else (k, d)) c) j
     = (if j = i then map_option f (map_of c j) else map_of c j)"
  by (induction c) auto

lemma getDoc_updateDoc:
  "updateDoc c i f = Some c' \<Longrightarrow> getDoc c' j = (if j = i then map_option f (getDoc c j) else getDoc c j)"
  unfolding updateDoc_def getDoc_def
  by (auto simp: map_of_update split: option.splits)

lemma updateDoc_Some_iff: "(\<exists>c'. updateDoc c i f = Some c') \<longleftrightarrow> getDoc c i \<noteq> None"
  by (auto simp: updateDoc_def getDoc_def split: option.splits)

lemma updateDoc_None_iff: "updateDoc c i f = None \<longleftrightarrow> getDoc c i = None"
  by (simp add: updateDoc_def getDoc_def split: option.splits)

lemma stockWrite_twice [simp]: "stockWrite e v (stockWrite e u d) = stockWrite e v d"
  by (simp add: stockWrite_def)

text \<open>A committed batch leaves a product no update names as it was.\<close>

lemma commit_untouched:
  "commit e ps us = Some ps' \<Longrightarrow> i \<notin> fst ` set us \<Longrightarrow> getDoc ps' i = getDoc ps i"
proof (induction us arbitrary: ps)
  case Nil then show ?case by simp
next
  case (Cons u us)
  obtain r v where u: "u = (r, v)" by (cases u)
  from Cons.prems(1) u obtain ps1 where
    1: "updateDoc ps r (stockWrite e v) = Some ps1" and 2: "commit e ps1 us = Some ps'"
    by (auto split: option.splits)
  from Cons.prems(2) u have "i \<noteq> r" "i \<notin> fst ` set us" by auto
  with Cons.IH[OF 2] getDoc_updateDoc[OF 1, of i] show ?case by simp
qed

text \<open>A product an update names holds, after the commit, the value of an update that names it.\<close>

lemma commit_written:
  "commit e ps us = Some ps' \<Longrightarrow> i \<in> fst ` set us \<Longrightarrow>
     \<exists>d v. getDoc ps i = Some d \<and> (i, v) \<in> set us \<and> getDoc ps' i = Some (stockWrite e v d)"
proof (induction us arbitrary: ps)
  case Nil then show ?case by simp
next
  case (Cons u us)
  obtain r v where u: "u = (r, v)" by (cases u)
  from Cons.prems(1) u obtain ps1 where
    1: "updateDoc ps r (stockWrite e v) = Some ps1" and 2: "commit e ps1 us = Some ps'"
    by (auto split: option.splits)
  show ?case
  proof (cases "i \<in> fst ` set us")
    case True
    from Cons.IH[OF 2 True] obtain d1 v1 where
      d1: "getDoc ps1 i = Some d1" "(i, v1) \<in> set us" "getDoc ps' i = Some (stockWrite e v1 d1)"
      by blast
    from d1(1) getDoc_updateDoc[OF 1, of i] obtain d where
      d: "getDoc ps i = Some d" "d1 = d \<or> d1 = stockWrite e v d"
      by (auto split: if_splits)
    from d(2) d1(3) have "getDoc ps' i = Some (stockWrite e v1 d)" by auto
    with d(1) d1(2) show ?thesis by auto
  next
    case False
    with Cons.prems(2) u have ir: "i = r" by auto
    from commit_untouched[OF 2 False] have "getDoc ps' i = getDoc ps1 i" .
    moreover from 1 obtain d where d: "getDoc ps r = Some d"
      using updateDoc_None_iff[of ps r "stockWrite e v"] by (cases "getDoc ps r") auto
    ultimately have "getDoc ps' i = Some (stockWrite e v d)"
      using getDoc_updateDoc[OF 1, of i] ir by simp
    with d ir u show ?thesis by auto
  qed
qed

lemma writesOf_checks:
  "(i, v) \<in> set (writesOf (map (checkItem e w) items)) \<Longrightarrow>
     \<exists>item \<in> set items. \<exists>d. productId item = i \<and> getDoc (products w) i = Some d
        \<and> \<not> jsLess (currentStock e d) (Number (StringToNumber e) (quantity item))
        \<and> v = jsMinus (currentStock e d) (Number (StringToNumber e) (quantity item))"
  by (induction items) (auto simp: checkItem_def split: option.splits if_splits)

lemma writesOf_refs:
  "\<forall>item \<in> set items. \<not> failingLine e w item \<Longrightarrow>
     map fst (writesOf (map (checkItem e w) items)) = map productId items"
  by (induction items) (auto simp: checkItem_def failingLine_def split: option.splits)

lemma commit_total:
  "\<forall>u \<in> set us. getDoc ps (fst u) \<noteq> None \<Longrightarrow> \<exists>ps'. commit e ps us = Some ps'"
proof (induction us arbitrary: ps)
  case Nil then show ?case by simp
next
  case (Cons u us)
  obtain r v where u: "u = (r, v)" by (cases u)
  from Cons.prems u have "getDoc ps r \<noteq> None" by simp
  then obtain ps1 where 1: "updateDoc ps r (stockWrite e v) = Some ps1"
    using updateDoc_Some_iff by metis
  have "\<forall>u \<in> set us. getDoc ps1 (fst u) \<noteq> None"
    using Cons.prems getDoc_updateDoc[OF 1] by auto
  from Cons.IH[OF this] show ?case using 1 u by simp
qed

text \<open>
  A batch none of whose lines fails: it succeeds, a product no line names is as it was,
  and a product a line names holds its previous stock minus the quantity of a line
  that names it, with the time of the call.
\<close>

lemma batch_products:
  assumes "\<forall>item \<in> set items. \<not> failingLine e w item"
  shows "success (fst (decrementMultipleProductsStock e w items))
       \<and> (\<forall>i. i \<notin> productId ` set items \<longrightarrow>
              getDoc (products (snd (decrementMultipleProductsStock e w items))) i
                = getDoc (products w) i)
       \<and> (\<forall>i \<in> productId ` set items. \<exists>item \<in> set items. \<exists>d.
              productId item = i \<and> getDoc (products w) i = Some d
            \<and> getDoc (products (snd (decrementMultipleProductsStock e w items))) i
                = Some (d\<lparr> pd_stockQuantity :=
                             JNumber (jsMinus (currentStock e d)
                                        (Number (StringToNumber e) (quantity item))),
                           pd_updatedAt := now e \<rparr>))"
proof -
  let ?us = "writesOf (map (checkItem e w) items)"
  have noerr: "errorsOf (map (checkItem e w) items) = []"
    using assms by (simp add: errorsOf_empty_iff)
  have refs: "fst ` set ?us = productId ` set items"
    using writesOf_refs[OF assms] by (metis set_map)
  have "\<forall>u \<in> set ?us. getDoc (products w) (fst u) \<noteq> None"
    using writesOf_checks[of _ _ e w items] by fastforce
  from commit_total[OF this] obtain ps where ps: "commit e (products w) ?us = Some ps" by blast
  have r: "decrementMultipleProductsStock e w items =
             (\<lparr> success = True, errors = [] \<rparr>,
              w\<lparr> products := ps, trace := trace w @ map (\<lambda>u. ProductWrite (fst u)) ?us \<rparr>)"
    by (simp add: decrementMultipleProductsStock_def Let_def noerr ps)
  have a: "success (fst (decrementMultipleProductsStock e w items))" by (simp add: r)
  have b: "getDoc (products (snd (decrementMultipleProductsStock e w items))) i
                = getDoc (products w) i" if "i \<notin> productId ` set items" for i
    using commit_untouched[OF ps, of i] that refs by (simp add: r)
  have c: "\<exists>item \<in> set items. \<exists>d.
              productId item = i \<and> getDoc (products w) i = Some d
            \<and> getDoc (products (snd (decrementMultipleProductsStock e w items))) i
                = Some (d\<lparr> pd_stockQuantity :=
                             JNumber (jsMinus (currentStock e d)
                                        (Number (StringToNumber e) (quantity item))),
                           pd_updatedAt := now e \<rparr>)" if "i \<in> productId ` set items" for i
  proof -
    from that refs have "i \<in> fst ` set ?us" by simp
    from commit_written[OF ps this] obtain d v where
      dv: "getDoc (products w) i = Some d" "(i, v) \<in> set ?us" "getDoc ps i = Some (stockWrite e v d)"
      by blast
    from writesOf_checks[OF dv(2)] dv(1) obtain item where
      it: "item \<in> set items" "productId item = i"
          "v = jsMinus (currentStock e d) (Number (StringToNumber e) (quantity item))"
      by auto
    show ?thesis
      using it dv(1,3) by (auto simp: r stockWrite_def)
  qed
  from a b c show ?thesis by blast
qed

text \<open>
  Claim C1. When a line of the batch names a missing product or asks for more than the
  product's current stock, \<open>decrementMultipleProductsStock\<close> answers
  \<open>success = false\<close> with one error per failing line and leaves the world as it
  was: no product is written, the lines that validated included.
\<close>

theorem C1_all_or_nothing:
  assumes "\<exists>item \<in> set items. failingLine e w item"
  shows "success (fst (decrementMultipleProductsStock e w items)) = False
       \<and> errors (fst (decrementMultipleProductsStock e w items))
           = map (lineError w) (filter (failingLine e w) items)
       \<and> snd (decrementMultipleProductsStock e w items) = w"
proof -
  have "errorsOf (map (checkItem e w) items) \<noteq> []"
    using assms by (simp add: errorsOf_empty_iff)
  then show ?thesis
    by (simp add: decrementMultipleProductsStock_def Let_def errorsOf_checks)
qed

theorem C1_witness:
  "failingLine env0 stockWorld \<lparr> productId = ''B'', quantity = JNumber (Num 20) \<rparr>
   \<and> success (fst (decrementMultipleProductsStock env0 stockWorld stockLines)) = False
   \<and> errors (fst (decrementMultipleProductsStock env0 stockWorld stockLines))
       = [''Insufficient stock for B'']
   \<and> getDoc (products (snd (decrementMultipleProductsStock env0 stockWorld stockLines))) ''A''
       = Some (productWith (JNumber (Num 10)))"
proof -
  have f: "failingLine env0 stockWorld \<lparr> productId = ''B'', quantity = JNumber (Num 20) \<rparr>"
    by (simp add: failingLine_def stockWorld_def emptyWorld_def getDoc_def currentStock_def
          productWith_def env0_def)
  have nf: "\<not> failingLine env0 stockWorld \<lparr> productId = ''A'', quantity = JNumber (Num 5) \<rparr>"
    by (simp add: failingLine_def stockWorld_def emptyWorld_def getDoc_def currentStock_def
          productWith_def env0_def)
  have "\<exists>item \<in> set stockLines. failingLine env0 stockWorld item"
    using f by (simp add: stockLines_def)
  from C1_all_or_nothing[OF this] f nf show ?thesis
    by (simp add: stockLines_def lineError_def stockWorld_def emptyWorld_def getDoc_def)
qed

text \<open>
  With a quantity that converts to a number, a single decrement writes only when the
  current stock covers the quantity, and what it writes is their difference.
\<close>

lemma numeric_quantity_decrement:
  assumes "Number (StringToNumber e) qty = Num q"
  shows "if fst (decrementProductStock e w pid qty)
         then \<exists>d. getDoc (products w) pid = Some d \<and> q \<le> currentStock e d
                \<and> getDoc (products (snd (decrementProductStock e w pid qty))) pid
                    = Some (d\<lparr> pd_stockQuantity := JNumber (Num (currentStock e d - q)),
                               pd_updatedAt := now e \<rparr>)
         else snd (decrementProductStock e w pid qty) = w"
  using assms
  by (auto simp: decrementProductStock_def getDoc_updateDoc stockWrite_def split: option.splits)

text \<open>
  Claim C5 fails on the code for a quantity that does not convert to a number (a line
  without a quantity, \<open>NaN\<close>): the comparison \<open>currentStock < quantity\<close> is false, so
  the check passes although the stock does not cover the quantity, and the product's
  stock quantity is overwritten with \<open>NaN\<close>. Here product A holds 10 before either call.
\<close>

theorem C5_quantity_not_a_number:
  "map_option pd_stockQuantity (getDoc (products stockWorld) ''A'') = Some (JNumber (Num 10))
   \<and> fst (decrementProductStock env0 stockWorld ''A'' (JNumber NaN)) = True
   \<and> map_option pd_stockQuantity
        (getDoc (products (snd (decrementProductStock env0 stockWorld ''A'' (JNumber NaN)))) ''A'')
       = Some (JNumber NaN)
   \<and> success (fst (decrementMultipleProductsStock env0 stockWorld
                      [\<lparr> productId = ''A'', quantity = JUndefined \<rparr>])) = True
   \<and> map_option pd_stockQuantity
        (getDoc (products (snd (decrementMultipleProductsStock env0 stockWorld
                                  [\<lparr> productId = ''A'', quantity = JUndefined \<rparr>]))) ''A'')
       = Some (JNumber NaN)"
  by (simp add: decrementProductStock_def decrementMultipleProductsStock_def checkItem_def
        currentStock_def stockWrite_def getDoc_def updateDoc_def stockWorld_def emptyWorld_def
        productWith_def env0_def)

section \<open>Properties of the product listings\<close>

lemma enrich_ids [simp]: "map p_id (enrichProductsWithFournisseurNames e ps) = map p_id ps"
  by (simp add: enrichProductsWithFournisseurNames_def split: option.splits)

lemma enrich_stock [simp]:
  "map p_stockQuantity (enrichProductsWithFournisseurNames e ps) = map p_stockQuantity ps"
  by (simp add: enrichProductsWithFournisseurNames_def split: option.splits)

lemma enrich_stock_set:
  "p \<in> set (enrichProductsWithFournisseurNames e ps) \<Longrightarrow> p_stockQuantity p \<in> p_stockQuantity ` set ps"
  by (auto simp: enrichProductsWithFournisseurNames_def split: option.splits)

lemma gtZero_iff: "gtZero x \<longleftrightarrow> (\<exists>n. x = Num n \<and> 0 < n)"
  by (cases x) auto

lemma inStock_positive: "p \<in> set (inStock e docs) \<Longrightarrow> gtZero (p_stockQuantity p)"
  by (simp add: inStock_def)

lemma listed_positive:
  "p \<in> set (enrichProductsWithFournisseurNames e (inStock e docs)) \<Longrightarrow> \<exists>n. p_stockQuantity p = Num n \<and> 0 < n"
proof -
  assume "p \<in> set (enrichProductsWithFournisseurNames e (inStock e docs))"
  from enrich_stock_set[OF this] obtain q where
    q: "q \<in> set (inStock e docs)" "p_stockQuantity p = p_stockQuantity q" by auto
  from inStock_positive[OF q(1)] q(2) show ?thesis by (simp add: gtZero_iff)
qed

lemma p_id_toProduct [simp]: "p_id (toProduct e x) = fst x"
  by (cases x) (simp add: toProduct_def Let_def)

lemma inStock_ids:
  "map p_id (inStock e docs) = map fst (filter (\<lambda>x. gtZero (p_stockQuantity (toProduct e x))) docs)"
  by (induction docs) (auto simp: inStock_def)

lemma unusable_stock_not_positive:
  "\<not> ToBoolean (pd_stockQuantity (snd x)) \<or> Number (StringToNumber e) (pd_stockQuantity (snd x)) = NaN
     \<Longrightarrow> \<not> gtZero (p_stockQuantity (toProduct e x))"
  by (cases x) (auto simp: toProduct_def Let_def)

text \<open>
  Claim C10. Each listing of the storefront (\<open>getProducts\<close>,
  \<open>getProductsByCategory\<close>, \<open>getFeaturedProducts\<close>) returns only products whose
  stock quantity is a number above zero: the result is, in order, the queried documents
  whose coerced quantity is positive. A document whose quantity is missing, falsy or
  does not convert to a number is not among them.
\<close>

theorem C10_listings_in_stock:
  "(\<forall>p \<in> set (getProducts e w). \<exists>n. p_stockQuantity p = Num n \<and> 0 < n)
   \<and> (\<forall>p \<in> set (getProductsByCategory e w c). \<exists>n. p_stockQuantity p = Num n \<and> 0 < n)
   \<and> (\<forall>p \<in> set (getFeaturedProducts e w). \<exists>n. p_stockQuantity p = Num n \<and> 0 < n)
   \<and> map p_id (getProducts e w)
       = map fst (filter (\<lambda>x. gtZero (p_stockQuantity (toProduct e x))) (products w))
   \<and> map p_id (getProductsByCategory e w c)
       = map fst (filter (\<lambda>x. gtZero (p_stockQuantity (toProduct e x)))
                    (filter (\<lambda>(i, d). pd_categoryId d = c) (products w)))
   \<and> map p_id (getFeaturedProducts e w)
       = map fst (filter (\<lambda>x. gtZero (p_stockQuantity (toProduct e x)))
                    (filter (\<lambda>(i, d). pd_feature d) (products w)))
   \<and> (\<forall>x. \<not> ToBoolean (pd_stockQuantity (snd x))
            \<or> Number (StringToNumber e) (pd_stockQuantity (snd x)) = NaN
          \<longrightarrow> \<not> gtZero (p_stockQuantity (toProduct e x)))"
proof (intro conjI ballI allI impI)
  fix p assume "p \<in> set (getProducts e w)"
  then show "\<exists>n. p_stockQuantity p = Num n \<and> 0 < n"
    unfolding getProducts_def by (rule listed_positive)
next
  fix p assume "p \<in> set (getProductsByCategory e w c)"
  then show "\<exists>n. p_stockQuantity p = Num n \<and> 0 < n"
    unfolding getProductsByCategory_def by (rule listed_positive)
next
  fix p assume "p \<in> set (getFeaturedProducts e w)"
  then show "\<exists>n. p_stockQuantity p = Num n \<and> 0 < n"
    unfolding getFeaturedProducts_def by (rule listed_positive)
next
  show "map p_id (getProducts e w)
       = map fst (filter (\<lambda>x. gtZero (p_stockQuantity (toProduct e x))) (products w))"
    by (simp add: getProducts_def inStock_ids)
next
  show "map p_id (getProductsByCategory e w c)
       = map fst (filter (\<lambda>x. gtZero (p_stockQuantity (toProduct e x)))
                    (filter (\<lambda>(i, d). pd_categoryId d = c) (products w)))"
    by (simp only: getProductsByCategory_def enrich_ids inStock_ids)
next
  show "map p_id (getFeaturedProducts e w)
       = map fst (filter (\<lambda>x. gtZero (p_stockQuantity (toProduct e x)))
                    (filter (\<lambda>(i, d). pd_feature d) (products w)))"
    by (simp only: getFeaturedProducts_def enrich_ids inStock_ids)
next
  fix x :: "string \<times> productDoc"
  assume "\<not> ToBoolean (pd_stockQuantity (snd x))
            \<or> Number (StringToNumber e) (pd_stockQuantity (snd x)) = NaN"
  then show "\<not> gtZero (p_stockQuantity (toProduct e x))"
    by (rule unusable_stock_not_positive)
qed

theorem C10_witness:
  "map p_id (getProducts env0 catalogueWorld) = [''apple'']
   \<and> map p_stockQuantity (getProducts env0 catalogueWorld) = [Num 4]
   \<and> map p_id (getProductsByCategory env0 catalogueWorld ''fruits'') = [''apple'']
   \<and> map p_id (getFeaturedProducts env0 catalogueWorld) = [''apple'']
   \<and> p_stockQuantity (toProduct env0 (''plum'', productWith (JString ''n/a''))) = NaN
   \<and> p_stockQuantity (toProduct env0 (''pear'', productWith JUndefined)) = Num 0"
proof -
  have 1: "filter (\<lambda>x. gtZero (p_stockQuantity (toProduct env0 x))) (products catalogueWorld)
             = [(''apple'', productWith (JNumber (Num 4)))]"
    by (simp add: catalogueWorld_def emptyWorld_def toProduct_def productWith_def env0_def)
  have 2: "filter (\<lambda>(i, d). pd_categoryId d = ''fruits'') (products catalogueWorld)
             = products catalogueWorld"
    by (simp add: catalogueWorld_def emptyWorld_def productWith_def)
  have 3: "filter (\<lambda>(i, d). pd_feature d) (products catalogueWorld) = products catalogueWorld"
    by (simp add: catalogueWorld_def emptyWorld_def productWith_def)
  have 4: "map p_stockQuantity (getProducts env0 catalogueWorld) = [Num 4]"
    by (simp add: getProducts_def inStock_def catalogueWorld_def emptyWorld_def toProduct_def
          productWith_def env0_def)
  have 5: "p_stockQuantity (toProduct env0 (''plum'', productWith (JString ''n/a''))) = NaN"
    by (simp add: toProduct_def productWith_def env0_def)
  have 6: "p_stockQuantity (toProduct env0 (''pear'', productWith JUndefined)) = Num 0"
    by (simp add: toProduct_def productWith_def env0_def)
  from C10_listings_in_stock[of env0 catalogueWorld "''fruits''"] 1 2 3 4 5 6
  show ?thesis by simp
qed

section \<open>Properties of the order services\<close>

lemma dmps_frame [simp]:
  "subOrders (snd (decrementMultipleProductsStock e w items)) = subOrders w"
  "masterOrders (snd (decrementMultipleProductsStock e w items)) = masterOrders w"
  by (simp_all add: decrementMultipleProductsStock_def Let_def split: option.splits)

lemma dmps_calls [simp]:
  "filter isStockDecrementCall (trace (snd (decrementMultipleProductsStock e w items)))
     = filter isStockDecrementCall (trace w)"
  by (simp add: decrementMultipleProductsStock_def Let_def filter_map o_def split: option.splits)

lemma dmps_failed: "\<not> success (fst (decrementMultipleProductsStock e w items))
   \<Longrightarrow> snd (decrementMultipleProductsStock e w items) = w"
  by (simp add: decrementMultipleProductsStock_def Let_def split: option.splits if_splits)

lemma notifyCustomer_frame [simp]:
  "products (notifyCustomer e w m) = products w"
  "subOrders (notifyCustomer e w m) = subOrders w"
  "masterOrders (notifyCustomer e w m) = masterOrders w"
  "filter isStockDecrementCall (trace (notifyCustomer e w m)) = filter isStockDecrementCall (trace w)"
  "filter isProductWrite (trace (notifyCustomer e w m)) = filter isProductWrite (trace w)"
  by (simp_all add: notifyCustomer_def split: option.splits)

lemma sync_frame [simp]:
  "products (snd (syncMasterOrderStatus e w m)) = products w"
  "subOrders (snd (syncMasterOrderStatus e w m)) = subOrders w"
  "filter isStockDecrementCall (trace (snd (syncMasterOrderStatus e w m)))
     = filter isStockDecrementCall (trace w)"
  "filter isProductWrite (trace (snd (syncMasterOrderStatus e w m)))
     = filter isProductWrite (trace w)"
  by (simp_all add: syncMasterOrderStatus_def Let_def split: option.splits)

lemma statusNotifications_frame [simp]:
  "products (statusNotifications w c st ps) = products w"
  "subOrders (statusNotifications w c st ps) = subOrders w"
  "masterOrders (statusNotifications w c st ps) = masterOrders w"
  "filter isStockDecrementCall (trace (statusNotifications w c st ps))
     = filter isStockDecrementCall (trace w)"
  "filter isProductWrite (trace (statusNotifications w c st ps)) = filter isProductWrite (trace w)"
  by (simp_all add: statusNotifications_def Let_def)

lemma set_getSubOrders [simp]:
  "set (getSubOrdersByMasterOrderId w m)
     = {x \<in> set (subOrders w). so_masterOrderId (snd x) = m}"
  by (auto simp: getSubOrdersByMasterOrderId_def)

lemma not_all_same:
  assumes "a \<in> set xs" "b \<in> set xs" "a \<noteq> b"
  shows "\<not> list_all (\<lambda>x. x = hd xs) xs"
proof
  assume "list_all (\<lambda>x. x = hd xs) xs"
  then have all: "\<forall>x \<in> set xs. x = hd xs" by (simp add: list_all_iff)
  from all assms(1) have "a = hd xs" by blast
  moreover from all assms(2) have "b = hd xs" by blast
  ultimately show False using assms(3) by simp
qed

lemma masterUpdate_status [simp]:
  "mo_status (masterUpdate e False s0 ap p0 m) = mo_status m"
  by (simp add: masterUpdate_def Let_def)

lemma masterStatus_updateDoc:
  assumes "updateDoc ms m (masterUpdate e False s0 ap p0) = Some ms'"
  shows "map_option mo_status (getDoc ms' i) = map_option mo_status (getDoc ms i)"
  using getDoc_updateDoc[OF assms, of i] by (cases "getDoc ms i") auto

text \<open>
  Claim C2. When two sub-orders of a master order differ in status,
  \<open>syncMasterOrderStatus\<close> leaves the status of every master order as it was,
  whether or not the payment statuses agree and cause the other fields to be written.
\<close>

theorem C2_unanimity_gating:
  assumes "a \<in> set (subOrdersOf w m)" "b \<in> set (subOrdersOf w m)" "so_status a \<noteq> so_status b"
  shows "masterStatus (snd (syncMasterOrderStatus e w m)) i = masterStatus w i"
proof -
  define subs where "subs = getSubOrdersByMasterOrderId w m"
  define statuses where "statuses = map (\<lambda>order. so_status (snd order)) subs"
  define payments where "payments = map (\<lambda>order. so_paymentStatus (snd order)) subs"
  define ap where "ap = list_all (\<lambda>status. status = hd payments) payments"
  have "a \<in> snd ` set subs" "b \<in> snd ` set subs"
    using assms(1,2) by (auto simp: subOrdersOf_def image_iff subs_def)
  then have "so_status a \<in> set statuses" "so_status b \<in> set statuses"
    by (auto simp: image_iff statuses_def)
  from not_all_same[OF this assms(3)]
  have ns: "list_all (\<lambda>status. status = hd statuses) statuses = False" by simp
  have sync: "syncMasterOrderStatus e w m =
     (if length subs = 0 then (Done, w)
      else if ap then
        (case updateDoc (masterOrders w) m (masterUpdate e False (hd statuses) ap (hd payments)) of
           None \<Rightarrow> (Thrown ''Failed to sync master order status'', w)
         | Some ms \<Rightarrow>
             (Done, notifyCustomer e
                (w\<lparr> masterOrders := ms, trace := trace w @ [MasterOrderWrite m] \<rparr>) m))
      else (Done, w))"
    unfolding syncMasterOrderStatus_def Let_def
      subs_def[symmetric] statuses_def[symmetric] payments_def[symmetric] ap_def[symmetric] ns
    by simp
  show ?thesis
  proof (cases "length subs \<noteq> 0 \<and> ap")
    case False
    then show ?thesis by (auto simp: sync)
  next
    case True
    show ?thesis
    proof (cases "updateDoc (masterOrders w) m (masterUpdate e False (hd statuses) ap (hd payments))")
      case None
      then show ?thesis using True by (simp add: sync)
    next
      case (Some ms)
      from masterStatus_updateDoc[OF Some, of i] Some True show ?thesis
        by (simp add: sync masterStatus_def)
    qed
  qed
qed

theorem C2_witness:
  "subOrderWith ''confirmed'' ''paid'' applesLine
     \<in> set (subOrdersOf ordersWorld ''M1'')
   \<and> subOrderWith ''preparing'' ''paid'' beansLine
     \<in> set (subOrdersOf ordersWorld ''M1'')
   \<and> masterStatus ordersWorld ''M1'' = Some ''pending''
   \<and> masterStatus (snd (syncMasterOrderStatus env0 ordersWorld ''M1'')) ''M1'' = Some ''pending''
   \<and> map_option mo_paymentStatus
        (getDoc (masterOrders (snd (syncMasterOrderStatus env0 ordersWorld ''M1''))) ''M1'')
       = Some ''paid''"
proof -
  have a: "subOrderWith ''confirmed'' ''paid'' applesLine
     \<in> set (subOrdersOf ordersWorld ''M1'')"
    by (simp add: subOrdersOf_def example_defs)
  have b: "subOrderWith ''preparing'' ''paid'' beansLine
     \<in> set (subOrdersOf ordersWorld ''M1'')"
    by (simp add: subOrdersOf_def example_defs)
  have c: "so_status (subOrderWith ''confirmed'' ''paid'' applesLine)
     \<noteq> so_status (subOrderWith ''preparing'' ''paid'' beansLine)"
    by (simp add: subOrderWith_def)
  have d: "masterStatus ordersWorld ''M1'' = Some ''pending''"
    by (simp add: masterStatus_def getDoc_def example_defs)
  have p: "map_option mo_paymentStatus
        (getDoc (masterOrders (snd (syncMasterOrderStatus env0 ordersWorld ''M1''))) ''M1'')
       = Some ''paid''"
    by (simp add: syncMasterOrderStatus_def getSubOrdersByMasterOrderId_def Let_def
          updateDoc_def getDoc_def masterUpdate_def notifyCustomer_def example_defs)
  from C2_unanimity_gating[OF a b c, of env0 "''M1''"] a b d p show ?thesis by simp
qed

lemma update_missing:
  "getDoc (subOrders w) sid = None \<Longrightarrow>
     updateSubOrderStatus e w sid st ps = (Thrown ''Failed to update order status'', w)"
  by (simp add: updateSubOrderStatus_def)

text \<open>The world in which the status write of \<open>updateSubOrderStatus\<close> takes place.\<close>

lemma update_present:
  assumes "getDoc (subOrders w) sid = Some cur"
  shows "\<exists>sos w1. updateDoc (subOrders w) sid (subOrderUpdate e st ps) = Some sos
           \<and> w1 = (if st = ''out_for_delivery'' \<and> so_status cur \<noteq> ''out_for_delivery''
                    then snd (decrementMultipleProductsStock e
                                (w\<lparr> trace := trace w @ [StockDecrementCall (stockItemsOf cur)] \<rparr>)
                                (stockItemsOf cur))
                    else w)
           \<and> updateSubOrderStatus e w sid st ps =
               (let r = syncMasterOrderStatus e
                          (statusNotifications
                             (w1\<lparr> subOrders := sos, trace := trace w1 @ [SubOrderWrite sid] \<rparr>)
                             cur st ps)
                          (so_masterOrderId cur)
                in (case fst r of Done \<Rightarrow> Done
                                | Thrown _ \<Rightarrow> Thrown ''Failed to update order status'', snd r))"
proof -
  from assms obtain sos where sos: "updateDoc (subOrders w) sid (subOrderUpdate e st ps) = Some sos"
    using updateDoc_Some_iff[of "subOrders w" sid] by (metis option.distinct(1))
  show ?thesis
    using assms sos
    by (auto simp: updateSubOrderStatus_def Let_def split: outcome.splits)
qed

lemma so_status_subOrderUpdate [simp]: "so_status (subOrderUpdate e st ps s) = st"
  by (simp add: subOrderUpdate_def Let_def)

lemma update_status_after:
  assumes "getDoc (subOrders w) sid = Some cur"
  shows "getDoc (subOrders (snd (updateSubOrderStatus e w sid st ps))) sid
           = Some (subOrderUpdate e st ps cur)"
proof -
  from update_present[OF assms, of e st ps] obtain sos w1 where
    sos: "updateDoc (subOrders w) sid (subOrderUpdate e st ps) = Some sos" and
    u: "updateSubOrderStatus e w sid st ps =
               (let r = syncMasterOrderStatus e
                          (statusNotifications
                             (w1\<lparr> subOrders := sos, trace := trace w1 @ [SubOrderWrite sid] \<rparr>)
                             cur st ps)
                          (so_masterOrderId cur)
                in (case fst r of Done \<Rightarrow> Done
                                | Thrown _ \<Rightarrow> Thrown ''Failed to update order status'', snd r))"
    by blast
  have "subOrders (snd (updateSubOrderStatus e w sid st ps)) = sos"
    by (simp add: u Let_def)
  with getDoc_updateDoc[OF sos, of sid] assms show ?thesis by simp
qed

lemma update_calls:
  "decrementCalls (snd (updateSubOrderStatus e w sid st ps)) =
     decrementCalls w +
       (if st = ''out_for_delivery''
           \<and> (\<exists>cur. getDoc (subOrders w) sid = Some cur \<and> so_status cur \<noteq> ''out_for_delivery'')
        then 1 else 0)"
proof (cases "getDoc (subOrders w) sid")
  case None
  then show ?thesis by (simp add: update_missing)
next
  case (Some cur)
  from update_present[OF Some, of e st ps] obtain sos w1 where
    w1: "w1 = (if st = ''out_for_delivery'' \<and> so_status cur \<noteq> ''out_for_delivery''
                    then snd (decrementMultipleProductsStock e
                                (w\<lparr> trace := trace w @ [StockDecrementCall (stockItemsOf cur)] \<rparr>)
                                (stockItemsOf cur))
                    else w)" and
    u: "updateSubOrderStatus e w sid st ps =
               (let r = syncMasterOrderStatus e
                          (statusNotifications
                             (w1\<lparr> subOrders := sos, trace := trace w1 @ [SubOrderWrite sid] \<rparr>)
                             cur st ps)
                          (so_masterOrderId cur)
                in (case fst r of Done \<Rightarrow> Done
                                | Thrown _ \<Rightarrow> Thrown ''Failed to update order status'', snd r))"
    by blast
  have "decrementCalls (snd (updateSubOrderStatus e w sid st ps)) = decrementCalls w1"
    by (simp add: u Let_def decrementCalls_def)
  also have "\<dots> = decrementCalls w +
       (if st = ''out_for_delivery'' \<and> so_status cur \<noteq> ''out_for_delivery'' then 1 else 0)"
    by (simp add: w1 decrementCalls_def)
  finally show ?thesis using Some by simp
qed

lemma update_no_decrement:
  assumes "getDoc (subOrders w) sid = Some cur"
    and "\<not> (st = ''out_for_delivery'' \<and> so_status cur \<noteq> ''out_for_delivery'')"
  shows "products (snd (updateSubOrderStatus e w sid st ps)) = products w
       \<and> productWrites (snd (updateSubOrderStatus e w sid st ps)) = productWrites w"
proof -
  from update_present[OF assms(1), of e st ps] assms(2) obtain sos where
    u: "updateSubOrderStatus e w sid st ps =
               (let r = syncMasterOrderStatus e
                          (statusNotifications
                             (w\<lparr> subOrders := sos, trace := trace w @ [SubOrderWrite sid] \<rparr>)
                             cur st ps)
                          (so_masterOrderId cur)
                in (case fst r of Done \<Rightarrow> Done
                                | Thrown _ \<Rightarrow> Thrown ''Failed to update order status'', snd r))"
    by auto
  show ?thesis by (simp add: u Let_def productWrites_def)
qed

lemma second_call_idle:
  "products (snd (updateSubOrderStatus e' (snd (updateSubOrderStatus e w sid ''out_for_delivery'' ps))
                    sid ''out_for_delivery'' ps'))
     = products (snd (updateSubOrderStatus e w sid ''out_for_delivery'' ps))
   \<and> productWrites (snd (updateSubOrderStatus e' (snd (updateSubOrderStatus e w sid ''out_for_delivery'' ps))
                    sid ''out_for_delivery'' ps'))
     = productWrites (snd (updateSubOrderStatus e w sid ''out_for_delivery'' ps))"
proof (cases "getDoc (subOrders w) sid")
  case None
  then show ?thesis by (simp add: update_missing)
next
  case (Some cur)
  let ?w1 = "snd (updateSubOrderStatus e w sid ''out_for_delivery'' ps)"
  have 1: "getDoc (subOrders ?w1) sid = Some (subOrderUpdate e ''out_for_delivery'' ps cur)"
    by (rule update_status_after[OF Some])
  show ?thesis
    by (rule update_no_decrement[OF 1]) simp
qed

lemma failingLine_trace [simp]:
  "failingLine e (w\<lparr> trace := t \<rparr>) item = failingLine e w item"
  by (simp add: failingLine_def)

lemma update_products_decrement:
  assumes "getDoc (subOrders w) sid = Some cur"
    and "so_status cur \<noteq> ''out_for_delivery''"
  shows "products (snd (updateSubOrderStatus e w sid ''out_for_delivery'' ps))
           = products (snd (decrementMultipleProductsStock e
                              (w\<lparr> trace := trace w @ [StockDecrementCall (stockItemsOf cur)] \<rparr>)
                              (stockItemsOf cur)))"
proof -
  from update_present[OF assms(1), of e "''out_for_delivery''" ps] assms(2) obtain sos w1 where
    w1: "w1 = snd (decrementMultipleProductsStock e
                     (w\<lparr> trace := trace w @ [StockDecrementCall (stockItemsOf cur)] \<rparr>)
                     (stockItemsOf cur))" and
    u: "updateSubOrderStatus e w sid ''out_for_delivery'' ps =
               (let r = syncMasterOrderStatus e
                          (statusNotifications
                             (w1\<lparr> subOrders := sos, trace := trace w1 @ [SubOrderWrite sid] \<rparr>)
                             cur ''out_for_delivery'' ps)
                          (so_masterOrderId cur)
                in (case fst r of Done \<Rightarrow> Done
                                | Thrown _ \<Rightarrow> Thrown ''Failed to update order status'', snd r))"
    by auto
  show ?thesis by (simp add: u Let_def w1)
qed

text \<open>
  The stock after two calls in a row with \<open>out_for_delivery\<close>, for a stored
  sub-order that was not yet out for delivery.
\<close>

lemma stock_after_two_calls:
  assumes "getDoc (subOrders w) sid = Some cur"
    and "so_status cur \<noteq> ''out_for_delivery''"
  shows "if \<exists>item \<in> set (stockItemsOf cur). failingLine e w item
         then products (snd (updateSubOrderStatus e'
                  (snd (updateSubOrderStatus e w sid ''out_for_delivery'' ps))
                  sid ''out_for_delivery'' ps')) = products w
         else (\<forall>i. i \<notin> productId ` set (stockItemsOf cur) \<longrightarrow>
                 getDoc (products (snd (updateSubOrderStatus e'
                    (snd (updateSubOrderStatus e w sid ''out_for_delivery'' ps))
                    sid ''out_for_delivery'' ps'))) i = getDoc (products w) i)
            \<and> (\<forall>i \<in> productId ` set (stockItemsOf cur).
                 \<exists>item \<in> set (stockItemsOf cur). \<exists>d.
                   productId item = i \<and> getDoc (products w) i = Some d
                 \<and> getDoc (products (snd (updateSubOrderStatus e'
                      (snd (updateSubOrderStatus e w sid ''out_for_delivery'' ps))
                      sid ''out_for_delivery'' ps'))) i
                     = Some (d\<lparr> pd_stockQuantity :=
                                  JNumber (jsMinus (currentStock e d)
                                             (Number (StringToNumber e) (quantity item))),
                                pd_updatedAt := now e \<rparr>))"
proof -
  let ?w' = "w\<lparr> trace := trace w @ [StockDecrementCall (stockItemsOf cur)] \<rparr>"
  have p: "products (snd (updateSubOrderStatus e'
                  (snd (updateSubOrderStatus e w sid ''out_for_delivery'' ps))
                  sid ''out_for_delivery'' ps'))
             = products (snd (decrementMultipleProductsStock e ?w' (stockItemsOf cur)))"
    using second_call_idle[of e' e w sid ps ps'] update_products_decrement[OF assms, of e ps]
    by simp
  show ?thesis
  proof (cases "\<exists>item \<in> set (stockItemsOf cur). failingLine e w item")
    case True
    then have "\<exists>item \<in> set (stockItemsOf cur). failingLine e ?w' item" by simp
    then have "\<not> success (fst (decrementMultipleProductsStock e ?w' (stockItemsOf cur)))"
      using errorsOf_empty_iff[of e ?w' "stockItemsOf cur"]
      by (auto simp: decrementMultipleProductsStock_def Let_def)
    from dmps_failed[OF this] True show ?thesis by (simp add: p)
  next
    case False
    then have "\<forall>item \<in> set (stockItemsOf cur). \<not> failingLine e ?w' item" by simp
    from batch_products[OF this] False show ?thesis by (simp add: p)
  qed
qed

text \<open>
  Claim C3, as amended. A call of \<open>updateSubOrderStatus\<close> invokes the stock decrement
  once if the new status is \<open>out_for_delivery\<close> and the stored sub-order has another
  status, and not at all otherwise. Two calls in a row with \<open>out_for_delivery\<close>
  invoke it once (for a stored sub-order not yet out for delivery), and the second call
  writes no product. After the two calls the stock is decremented once when no line of
  the sub-order fails: a product a line names holds its previous stock minus the
  quantity of a line that names it, and every other product is as it was. When a line
  fails (a missing product, or less stock than the line asks for) no stock is
  decremented at all.
\<close>

theorem C3_decrement_trigger:
  "decrementCalls (snd (updateSubOrderStatus e w sid st ps)) =
     decrementCalls w +
       (if st = ''out_for_delivery''
           \<and> (\<exists>cur. getDoc (subOrders w) sid = Some cur \<and> so_status cur \<noteq> ''out_for_delivery'')
        then 1 else 0)
   \<and> decrementCalls (snd (updateSubOrderStatus e' (snd (updateSubOrderStatus e w sid ''out_for_delivery'' ps))
                    sid ''out_for_delivery'' ps'))
     = decrementCalls w +
       (if \<exists>cur. getDoc (subOrders w) sid = Some cur \<and> so_status cur \<noteq> ''out_for_delivery''
        then 1 else 0)
   \<and> productWrites (snd (updateSubOrderStatus e' (snd (updateSubOrderStatus e w sid ''out_for_delivery'' ps))
                    sid ''out_for_delivery'' ps'))
     = productWrites (snd (updateSubOrderStatus e w sid ''out_for_delivery'' ps))
   \<and> products (snd (updateSubOrderStatus e' (snd (updateSubOrderStatus e w sid ''out_for_delivery'' ps))
                    sid ''out_for_delivery'' ps'))
     = products (snd (updateSubOrderStatus e w sid ''out_for_delivery'' ps))
   \<and> (\<forall>cur. getDoc (subOrders w) sid = Some cur \<and> so_status cur \<noteq> ''out_for_delivery'' \<longrightarrow>
        (if \<exists>item \<in> set (stockItemsOf cur). failingLine e w item
         then products (snd (updateSubOrderStatus e'
                  (snd (updateSubOrderStatus e w sid ''out_for_delivery'' ps))
                  sid ''out_for_delivery'' ps')) = products w
         else (\<forall>i. i \<notin> productId ` set (stockItemsOf cur) \<longrightarrow>
                 getDoc (products (snd (updateSubOrderStatus e'
                    (snd (updateSubOrderStatus e w sid ''out_for_delivery'' ps))
                    sid ''out_for_delivery'' ps'))) i = getDoc (products w) i)
            \<and> (\<forall>i \<in> productId ` set (stockItemsOf cur).
                 \<exists>item \<in> set (stockItemsOf cur). \<exists>d.
                   productId item = i \<and> getDoc (products w) i = Some d
                 \<and> getDoc (products (snd (updateSubOrderStatus e'
                      (snd (updateSubOrderStatus e w sid ''out_for_delivery'' ps))
                      sid ''out_for_delivery'' ps'))) i
                     = Some (d\<lparr> pd_stockQuantity :=
                                  JNumber (jsMinus (currentStock e d)
                                             (Number (StringToNumber e) (quantity item))),
                                pd_updatedAt := now e \<rparr>))))"
proof (intro conjI)
  show "decrementCalls (snd (updateSubOrderStatus e w sid st ps)) =
     decrementCalls w +
       (if st = ''out_for_delivery''
           \<and> (\<exists>cur. getDoc (subOrders w) sid = Some cur \<and> so_status cur \<noteq> ''out_for_delivery'')
        then 1 else 0)"
    by (rule update_calls)
next
  let ?w1 = "snd (updateSubOrderStatus e w sid ''out_for_delivery'' ps)"
  have 2: "decrementCalls (snd (updateSubOrderStatus e' ?w1 sid ''out_for_delivery'' ps'))
             = decrementCalls ?w1"
  proof (cases "getDoc (subOrders w) sid")
    case None
    then show ?thesis by (simp add: update_missing update_calls)
  next
    case (Some cur)
    from update_status_after[OF Some, of e "''out_for_delivery''" ps]
    show ?thesis by (simp add: update_calls[of e' ?w1])
  qed
  show "decrementCalls (snd (updateSubOrderStatus e' ?w1 sid ''out_for_delivery'' ps'))
     = decrementCalls w +
       (if \<exists>cur. getDoc (subOrders w) sid = Some cur \<and> so_status cur \<noteq> ''out_for_delivery''
        then 1 else 0)"
    unfolding 2 by (simp add: update_calls[of e w])
next
  show "productWrites (snd (updateSubOrderStatus e' (snd (updateSubOrderStatus e w sid ''out_for_delivery'' ps))
                    sid ''out_for_delivery'' ps'))
     = productWrites (snd (updateSubOrderStatus e w sid ''out_for_delivery'' ps))"
    using second_call_idle by blast
next
  show "products (snd (updateSubOrderStatus e' (snd (updateSubOrderStatus e w sid ''out_for_delivery'' ps))
                    sid ''out_for_delivery'' ps'))
     = products (snd (updateSubOrderStatus e w sid ''out_for_delivery'' ps))"
    using second_call_idle by blast
next
  show "\<forall>cur. getDoc (subOrders w) sid = Some cur \<and> so_status cur \<noteq> ''out_for_delivery'' \<longrightarrow>
        (if \<exists>item \<in> set (stockItemsOf cur). failingLine e w item
         then products (snd (updateSubOrderStatus e'
                  (snd (updateSubOrderStatus e w sid ''out_for_delivery'' ps))
                  sid ''out_for_delivery'' ps')) = products w
         else (\<forall>i. i \<notin> productId ` set (stockItemsOf cur) \<longrightarrow>
                 getDoc (products (snd (updateSubOrderStatus e'
                    (snd (updateSubOrderStatus e w sid ''out_for_delivery'' ps))
                    sid ''out_for_delivery'' ps'))) i = getDoc (products w) i)
            \<and> (\<forall>i \<in> productId ` set (stockItemsOf cur).
                 \<exists>item \<in> set (stockItemsOf cur). \<exists>d.
                   productId item = i \<and> getDoc (products w) i = Some d
                 \<and> getDoc (products (snd (updateSubOrderStatus e'
                      (snd (updateSubOrderStatus e w sid ''out_for_delivery'' ps))
                      sid ''out_for_delivery'' ps'))) i
                     = Some (d\<lparr> pd_stockQuantity :=
                                  JNumber (jsMinus (currentStock e d)
                                             (Number (StringToNumber e) (quantity item))),
                                pd_updatedAt := now e \<rparr>)))"
    using stock_after_two_calls[of w sid _ e e' ps ps'] by blast
qed

theorem C3_witness:
  "getDoc (subOrders ordersWorld) ''S1'' = Some (subOrderWith ''confirmed'' ''paid'' applesLine)
   \<and> \<not> failingLine env0 ordersWorld \<lparr> productId = ''A'', quantity = JNumber (Num 5) \<rparr>
   \<and> decrementCalls ordersWorld = 0
   \<and> decrementCalls (snd (updateSubOrderStatus env0 ordersWorld ''S1'' ''out_for_delivery'' None)) = 1
   \<and> decrementCalls (snd (updateSubOrderStatus env0
        (snd (updateSubOrderStatus env0 ordersWorld ''S1'' ''out_for_delivery'' None))
        ''S1'' ''out_for_delivery'' None)) = 1
   \<and> productWrites (snd (updateSubOrderStatus env0
        (snd (updateSubOrderStatus env0 ordersWorld ''S1'' ''out_for_delivery'' None))
        ''S1'' ''out_for_delivery'' None)) = [ProductWrite ''A'']
   \<and> map_option pd_stockQuantity (getDoc (products ordersWorld) ''A'') = Some (JNumber (Num 10))
   \<and> map_option pd_stockQuantity (getDoc (products (snd (updateSubOrderStatus env0
        (snd (updateSubOrderStatus env0 ordersWorld ''S1'' ''out_for_delivery'' None))
        ''S1'' ''out_for_delivery'' None))) ''A'') = Some (JNumber (Num 5))
   \<and> map_option pd_stockQuantity (getDoc (products (snd (updateSubOrderStatus env0
        (snd (updateSubOrderStatus env0 ordersWorld ''S1'' ''out_for_delivery'' None))
        ''S1'' ''out_for_delivery'' None))) ''B'') = Some (JNumber (Num 3))"
proof -
  let ?w2 = "snd (updateSubOrderStatus env0
        (snd (updateSubOrderStatus env0 ordersWorld ''S1'' ''out_for_delivery'' None))
        ''S1'' ''out_for_delivery'' None)"
  have 0: "decrementCalls ordersWorld = 0"
    by (simp add: decrementCalls_def example_defs)
  have g: "getDoc (subOrders ordersWorld) ''S1'' = Some (subOrderWith ''confirmed'' ''paid'' applesLine)"
    by (simp add: getDoc_def ordersWorld_def)
  have s: "so_status (subOrderWith ''confirmed'' ''paid'' applesLine) \<noteq> ''out_for_delivery''"
    by (simp add: subOrderWith_def)
  have 1: "\<exists>cur. getDoc (subOrders ordersWorld) ''S1'' = Some cur \<and> so_status cur \<noteq> ''out_for_delivery''"
    using g s by simp
  have items: "stockItemsOf (subOrderWith ''confirmed'' ''paid'' applesLine)
                 = [\<lparr> productId = ''A'', quantity = JNumber (Num 5) \<rparr>]"
    by (simp add: stockItemsOf_def subOrderWith_def applesLine_def)
  have nf: "\<not> failingLine env0 ordersWorld \<lparr> productId = ''A'', quantity = JNumber (Num 5) \<rparr>"
    by (simp add: failingLine_def getDoc_def currentStock_def example_defs)
  have a: "getDoc (products ordersWorld) ''A'' = Some (productWith (JNumber (Num 10)))"
    and b: "getDoc (products ordersWorld) ''B'' = Some (productWith (JNumber (Num 3)))"
    by (simp_all add: getDoc_def ordersWorld_def stockWorld_def emptyWorld_def)
  have c: "currentStock env0 (productWith (JNumber (Num 10))) = 10"
    by (simp add: currentStock_def productWith_def)
  note inst = C3_decrement_trigger[of env0 ordersWorld "''S1''" "''out_for_delivery''" None env0 None]
  from inst have five:
    "\<forall>cur. getDoc (subOrders ordersWorld) ''S1'' = Some cur \<and> so_status cur \<noteq> ''out_for_delivery'' \<longrightarrow>
        (if \<exists>item \<in> set (stockItemsOf cur). failingLine env0 ordersWorld item
         then products ?w2 = products ordersWorld
         else (\<forall>i. i \<notin> productId ` set (stockItemsOf cur) \<longrightarrow>
                 getDoc (products ?w2) i = getDoc (products ordersWorld) i)
            \<and> (\<forall>i \<in> productId ` set (stockItemsOf cur).
                 \<exists>item \<in> set (stockItemsOf cur). \<exists>d.
                   productId item = i \<and> getDoc (products ordersWorld) i = Some d
                 \<and> getDoc (products ?w2) i
                     = Some (d\<lparr> pd_stockQuantity :=
                                  JNumber (jsMinus (currentStock env0 d)
                                             (Number (StringToNumber env0) (quantity item))),
                                pd_updatedAt := now env0 \<rparr>)))"
    by (elim conjE) assumption
  have "\<not> (\<exists>item \<in> set (stockItemsOf (subOrderWith ''confirmed'' ''paid'' applesLine)).
            failingLine env0 ordersWorld item)"
    using nf by (simp add: items)
  with five[rule_format, of "subOrderWith ''confirmed'' ''paid'' applesLine"] g s have stock:
    "(\<forall>i. i \<notin> productId ` set (stockItemsOf (subOrderWith ''confirmed'' ''paid'' applesLine)) \<longrightarrow>
         getDoc (products ?w2) i = getDoc (products ordersWorld) i)
     \<and> (\<forall>i \<in> productId ` set (stockItemsOf (subOrderWith ''confirmed'' ''paid'' applesLine)).
           \<exists>item \<in> set (stockItemsOf (subOrderWith ''confirmed'' ''paid'' applesLine)). \<exists>d.
             productId item = i \<and> getDoc (products ordersWorld) i = Some d
           \<and> getDoc (products ?w2) i
               = Some (d\<lparr> pd_stockQuantity :=
                            JNumber (jsMinus (currentStock env0 d)
                                       (Number (StringToNumber env0) (quantity item))),
                          pd_updatedAt := now env0 \<rparr>))"
    by presburger
  from stock have sa: "map_option pd_stockQuantity (getDoc (products ?w2) ''A'') = Some (JNumber (Num 5))"
    using a c by (simp add: items)
  from stock have sb: "map_option pd_stockQuantity (getDoc (products ?w2) ''B'') = Some (JNumber (Num 3))"
    using b by (simp add: items productWith_def)
  have 2: "productWrites (snd (updateSubOrderStatus env0 ordersWorld ''S1'' ''out_for_delivery'' None))
             = [ProductWrite ''A'']"
    by (simp add: productWrites_def eval_defs example_defs)
  from inst 0 1 2 g nf a sa sb show ?thesis by (simp add: productWith_def)
qed

text \<open>
  Claim C3 as stated fails where the stock does not cover a line: sub-order S2 asks for
  20 of product B, which holds 3. Two calls in a row invoke the decrement once, and the
  stock is decremented not once but never: no product is written.
\<close>

theorem C3_counterexample:
  "getDoc (subOrders ordersWorld) ''S2'' = Some (subOrderWith ''preparing'' ''paid'' beansLine)
   \<and> decrementCalls (snd (updateSubOrderStatus env0
        (snd (updateSubOrderStatus env0 ordersWorld ''S2'' ''out_for_delivery'' None))
        ''S2'' ''out_for_delivery'' None)) = 1
   \<and> productWrites (snd (updateSubOrderStatus env0
        (snd (updateSubOrderStatus env0 ordersWorld ''S2'' ''out_for_delivery'' None))
        ''S2'' ''out_for_delivery'' None)) = []
   \<and> map_option pd_stockQuantity (getDoc (products (snd (updateSubOrderStatus env0
        (snd (updateSubOrderStatus env0 ordersWorld ''S2'' ''out_for_delivery'' None))
        ''S2'' ''out_for_delivery'' None))) ''B'') = Some (JNumber (Num 3))
   \<and> map_option so_status (getDoc (subOrders (snd (updateSubOrderStatus env0
        (snd (updateSubOrderStatus env0 ordersWorld ''S2'' ''out_for_delivery'' None))
        ''S2'' ''out_for_delivery'' None))) ''S2'') = Some ''out_for_delivery''"
  by (simp add: decrementCalls_def productWrites_def eval_defs example_defs)






text \<open>
  Claim C7, as amended. Called with an id that has no sub-order document,
  \<open>updateSubOrderStatus\<close> writes nothing and calls no collaborator, and the caller
  receives the exception \<open>Failed to update order status\<close>: the not-found condition
  is thrown, not returned.
\<close>

theorem C7_missing_sub_order_is_thrown:
  assumes "getDoc (subOrders w) sid = None"
  shows "updateSubOrderStatus e w sid st ps = (Thrown ''Failed to update order status'', w)"
  using assms by (rule update_missing)

theorem C7_witness:
  "getDoc (subOrders emptyWorld) ''S1'' = None
   \<and> updateSubOrderStatus env0 emptyWorld ''S1'' ''confirmed'' (Some ''paid'')
       = (Thrown ''Failed to update order status'', emptyWorld)"
proof -
  have a: "getDoc (subOrders emptyWorld) ''S1'' = None"
    by (simp add: getDoc_def emptyWorld_def)
  from C7_missing_sub_order_is_thrown[OF a, of env0 "''confirmed''" "Some ''paid''"] a
  show ?thesis by simp
qed

text \<open>
  Claim C7 as stated fails: an unknown sub-order id makes \<open>updateSubOrderStatus\<close>
  throw to its caller.
\<close>

theorem C7_counterexample:
  "fst (updateSubOrderStatus env0 ordersWorld ''S9'' ''out_for_delivery'' None)
     = Thrown ''Failed to update order status''"
  by (simp add: updateSubOrderStatus_def getDoc_def example_defs)

section \<open>Properties of the notification services\<close>

text \<open>
  Claim C9. A batch that reaches the listener of a supplier less than 2000 ms after
  the batch it last processed for that supplier is dropped whole: the listener's memory
  and the world stay as they were, so no change is processed, no ledger or log entry is
  written and nothing is dispatched.
\<close>

theorem C9_throttle_drops_batch:
  assumes "lastProcessedTimestamp (fst tw) f = Some t0"
    and "currentTime - t0 < 2000"
  shows "onSnapshot e f currentTime changes tw = tw"
  using assms by (simp add: onSnapshot_def)

theorem C9_witness:
  "lastProcessedTimestamp (fst (onSnapshot env0 ''f1'' 5000 [(added, confirmedOrder)]
                                  (idleTrigger, notifyWorld))) ''f1'' = Some 5000
   \<and> length (notificationLogs (snd (onSnapshot env0 ''f1'' 5000 [(added, confirmedOrder)]
                                  (idleTrigger, notifyWorld)))) = 1
   \<and> (6999::int) - 5000 < 2000
   \<and> onSnapshot env0 ''f1'' 6999 [(modified, archivedOrder), (added, confirmedOrder)]
        (onSnapshot env0 ''f1'' 5000 [(added, confirmedOrder)] (idleTrigger, notifyWorld))
       = onSnapshot env0 ''f1'' 5000 [(added, confirmedOrder)] (idleTrigger, notifyWorld)"
proof -
  have a: "lastProcessedTimestamp (fst (onSnapshot env0 ''f1'' 5000 [(added, confirmedOrder)]
                                  (idleTrigger, notifyWorld))) ''f1'' = Some 5000"
    by (simp add: onSnapshot_def idleTrigger_def)
  have b: "length (notificationLogs (snd (onSnapshot env0 ''f1'' 5000 [(added, confirmedOrder)]
                                  (idleTrigger, notifyWorld)))) = 1"
    by (simp add: onSnapshot_def idleTrigger_def notify_defs confirmedOrder_def notifyWorld_def
          example_defs)
  have c: "(6999::int) - 5000 < 2000" by simp
  from C9_throttle_drops_batch[OF a c, of env0 "[(modified, archivedOrder), (added, confirmedOrder)]"] a b c
  show ?thesis by simp
qed





end
